theory Spec2Isabelle
  imports Main "HOL-Library.AList"
begin

section \<open>Values exchanged with the client\<close>

text \<open>
  The handlers of \<^verbatim>\<open>hermes/handlers/api.py\<close> build Python dictionaries and hand them to
  the responders of \<^verbatim>\<open>ApiHandler\<close>. A dictionary is an association list; assigning to a
  key replaces the binding of that key or adds one.
\<close>

datatype json = JNull | JInt int | JStr string | JArr "json list" | JObj "(string \<times> json) list"

type_synonym dict = "(string \<times> json) list"

definition dict_set :: "string \<Rightarrow> json \<Rightarrow> dict \<Rightarrow> dict" where
  "dict_set k v d = AList.update k v d"

definition dict_get :: "dict \<Rightarrow> string \<Rightarrow> json option" where
  "dict_get d k = map_of d k"

text \<open>
  The exceptions a handler can leave with. \<^verbatim>\<open>exc.BadRequest\<close>, \<^verbatim>\<open>exc.NotFound\<close> and
  \<^verbatim>\<open>exc.Conflict\<close> are raised by the handlers themselves; \<^verbatim>\<open>exc.ValidationError\<close> and
  \<^verbatim>\<open>IntegrityError\<close> come from the model layer and are caught by the handlers;
  \<^verbatim>\<open>ValueError\<close> is what reading \<^verbatim>\<open>self.jbody\<close> raises on a body that is not JSON;
  \<^verbatim>\<open>AttributeError a\<close> is Python's "'NoneType' object has no attribute a";
  \<^verbatim>\<open>MultipleResultsFound\<close> is what \<^verbatim>\<open>Query.scalar()\<close> raises on more than one row.
\<close>

datatype exc =
    BadRequest string
  | NotFound string
  | Conflict string
  | ValidationError string
  | IntegrityError string
  | ValueError string
  | AttributeError string
  | MultipleResultsFound

text \<open>
  A handler that does not raise ends by calling one responder of \<^verbatim>\<open>ApiHandler\<close>:
  \<^verbatim>\<open>self.success(data)\<close>, \<^verbatim>\<open>self.created(location, data)\<close> or \<^verbatim>\<open>self.error(data)\<close>.
\<close>

datatype response = Success dict | Created string dict | Error dict

section \<open>The entities and the session\<close>

record host =
  host_id :: int
  host_hostname :: string

record event_type =
  event_type_id :: int
  event_type_category :: string
  event_type_state :: string
  event_type_description :: string

record event =
  event_id :: int
  event_host_id :: int
  event_event_type_id :: int
  event_timestamp :: int

record quest =
  quest_id :: int

record labor =
  labor_id :: int
  labor_host_id :: int
  labor_creation_time :: int
  labor_quest :: quest

record fate =
  fate_id :: int
  fate_event_type_ids :: "int list"

text \<open>
  The session holds the tables. Each table is the list of its rows in the order in which
  an unordered query over it yields them.
\<close>

record session =
  host_rows :: "host list"
  event_type_rows :: "event_type list"
  event_rows :: "event list"
  labor_rows :: "labor list"
  fate_rows :: "fate list"

text \<open>
  Serialisation of the entities (\<^verbatim>\<open>to_dict(base_uri)\<close>, \<^verbatim>\<open>href(base_uri)\<close>) and the textual
  form \<^verbatim>\<open>str\<close> of a timestamp are defined in \<^verbatim>\<open>hermes/models.py\<close>, which is not
  among the sources. The handlers are modelled for arbitrary serialisers, collected here.
\<close>

record models =
  host_to_dict :: "string \<Rightarrow> host \<Rightarrow> dict"
  event_type_to_dict :: "string \<Rightarrow> event_type \<Rightarrow> dict"
  labor_to_dict :: "string \<Rightarrow> labor \<Rightarrow> dict"
  labor_href :: "string \<Rightarrow> labor \<Rightarrow> string"
  quest_to_dict :: "string \<Rightarrow> quest \<Rightarrow> dict"
  quest_href :: "string \<Rightarrow> quest \<Rightarrow> string"
  event_to_dict :: "string \<Rightarrow> event \<Rightarrow> dict"
  event_href :: "string \<Rightarrow> event \<Rightarrow> string"
  fate_to_dict :: "string \<Rightarrow> fate \<Rightarrow> dict"
  fate_href :: "string \<Rightarrow> fate \<Rightarrow> string"
  str_timestamp :: "int \<Rightarrow> string"

text \<open>
  What \<^verbatim>\<open>self.get_pagination_values()\<close> gives: offset, limit and the expand-set. The
  method lives in \<^verbatim>\<open>hermes/handlers/util.py\<close>, not among the sources, so it is a
  parameter of the handlers: a call on the handler's own state \<open>'r\<close> that raises or
  returns the triple, and leaves the handler in a next state.
\<close>

type_synonym pagination = "nat \<times> nat \<times> string set"

type_synonym 'r get_pagination_values = "'r \<Rightarrow> (exc + pagination) \<times> 'r"

section \<open>Queries\<close>

text \<open>
  \<^verbatim>\<open>Query.scalar()\<close>: no row gives \<^verbatim>\<open>None\<close>, one row gives the row, more rows raise.
  \<^verbatim>\<open>Query.first()\<close>: the first row, or \<^verbatim>\<open>None\<close> when there is none.
\<close>

definition scalar :: "'a list \<Rightarrow> exc + 'a option" where
  "scalar rows = (case rows of [] \<Rightarrow> Inr None | [r] \<Rightarrow> Inr (Some r) | _ \<Rightarrow> Inl MultipleResultsFound)"

definition first :: "'a list \<Rightarrow> 'a option" where
  "first rows = (case rows of [] \<Rightarrow> None | r # _ \<Rightarrow> Some r)"

text \<open>
  \<^verbatim>\<open>q.limit(limit).offset(offset)\<close> is SQL's \<^verbatim>\<open>LIMIT limit OFFSET offset\<close> on the rows of
  \<^verbatim>\<open>q\<close>: skip \<open>offset\<close> rows, keep at most \<open>limit\<close>.
  \<^verbatim>\<open>.from_self().order_by(key)\<close> wraps that result as a subquery and orders its rows
  by \<open>key\<close>, ascending.
\<close>

definition limit_offset :: "nat \<Rightarrow> nat \<Rightarrow> 'a list \<Rightarrow> 'a list" where
  "limit_offset limit offset rows = take limit (drop offset rows)"

definition from_self_order_by :: "('a \<Rightarrow> int) \<Rightarrow> 'a list \<Rightarrow> 'a list" where
  "from_self_order_by key rows = sort_key key rows"

text \<open>
  Modelled from the spec: \<^verbatim>\<open>Host.get_labors\<close> is defined in \<^verbatim>\<open>hermes/models.py\<close>, which
  is missing from the sources. The spec names it "labors of host, joined to quest": the
  labors tied to the host, each with its quest. Neither the spec nor the handler fixes the
  order in which this query yields its rows; they come in the order of the session's
  labor rows, which is arbitrary.
\<close>

definition get_labors :: "session \<Rightarrow> host \<Rightarrow> labor list" where
  "get_labors s h = filter (\<lambda>l. labor_host_id l = host_id h) (labor_rows s)"

text \<open>The events recorded against a host, and those of an event type, as stored.\<close>

definition host_events :: "session \<Rightarrow> host \<Rightarrow> event list" where
  "host_events s h = filter (\<lambda>e. event_host_id e = host_id h) (event_rows s)"

definition event_type_events :: "session \<Rightarrow> event_type \<Rightarrow> event list" where
  "event_type_events s t = filter (\<lambda>e. event_event_type_id e = event_type_id t) (event_rows s)"

text \<open>
  Modelled from the spec: \<^verbatim>\<open>Host.get_latest_events\<close> and
  \<^verbatim>\<open>EventType.get_latest_events\<close> are defined in \<^verbatim>\<open>hermes/models.py\<close>, which is missing
  from the sources. The spec names them \<^verbatim>\<open>latestEventsFor\<close>, a full ordered sequence
  whose single first element is the latest event, the event with the maximum timestamp:
  the events come latest first.
\<close>

definition host_get_latest_events :: "session \<Rightarrow> host \<Rightarrow> event list" where
  "host_get_latest_events s h = rev (sort_key event_timestamp (host_events s h))"

definition event_type_get_latest_events :: "session \<Rightarrow> event_type \<Rightarrow> event list" where
  "event_type_get_latest_events s t = rev (sort_key event_timestamp (event_type_events s t))"

text \<open>
  Modelled from the spec: \<^verbatim>\<open>EventType.get_associated_fates\<close> is defined in
  \<^verbatim>\<open>hermes/models.py\<close>, which is missing from the sources. The spec names it
  \<^verbatim>\<open>associatedFates(eventType)\<close>, the unpaginated sequence of the fates associated with
  the event type, a fate being associated with one or more event types.
\<close>

definition get_associated_fates :: "session \<Rightarrow> event_type \<Rightarrow> fate list" where
  "get_associated_fates s t = filter (\<lambda>f. event_type_id t \<in> set (fate_event_type_ids f)) (fate_rows s)"

section \<open>Hosts: the composite document\<close>

text \<open>
  The loop of \<^verbatim>\<open>HostHandler.get\<close> over the windowed labors (api.py, lines 156 to 175):
  each labor appends one entry to \<^verbatim>\<open>labors\<close> and one to \<^verbatim>\<open>quests\<close>.
\<close>

fun labors_loop :: "models \<Rightarrow> string set \<Rightarrow> labor list \<Rightarrow> json list \<Rightarrow> json list \<Rightarrow> json list \<times> json list" where
  "labors_loop M expand [] labors_acc quests_acc = (labors_acc, quests_acc)"
| "labors_loop M expand (labor # rest) labors_acc quests_acc =
     labors_loop M expand rest
       (if ''labors'' \<in> expand
        then labors_acc @ [JObj (labor_to_dict M ''/api/v1'' labor)]
        else labors_acc @ [JObj [(''id'', JInt (labor_id labor)),
                                 (''href'', JStr (labor_href M ''/api/v1'' labor))]])
       (if ''quests'' \<in> expand
        then quests_acc @ [JObj (quest_to_dict M ''/api/v1'' (labor_quest labor))]
        else quests_acc @ [JObj [(''id'', JInt (quest_id (labor_quest labor))),
                                 (''href'', JStr (quest_href M ''/api/v1'' (labor_quest labor)))]])"

text \<open>
  The loop over the windowed events, which \<^verbatim>\<open>HostHandler.get\<close> (lines 183 to 192) and
  \<^verbatim>\<open>EventTypeHandler.get\<close> (lines 439 to 448) both have.
\<close>

fun events_loop :: "models \<Rightarrow> string set \<Rightarrow> event list \<Rightarrow> json list \<Rightarrow> json list" where
  "events_loop M expand [] events_acc = events_acc"
| "events_loop M expand (event # rest) events_acc =
     events_loop M expand rest
       (if ''events'' \<in> expand
        then events_acc @ [JObj (event_to_dict M ''/api/v1'' event)]
        else events_acc @ [JObj [(''id'', JInt (event_id event)),
                                 (''href'', JStr (event_href M ''/api/v1'' event))]])"

text \<open>
  \<^verbatim>\<open>HostHandler.get\<close> (api.py, lines 145 to 196). \<^verbatim>\<open>last_event\<close> is the first row of the
  latest-events query, \<^verbatim>\<open>None\<close> when the host has no event; line 193 reads its
  \<^verbatim>\<open>timestamp\<close> with no test, which raises \<^verbatim>\<open>AttributeError\<close> on \<^verbatim>\<open>None\<close>.
\<close>

definition HostHandler_get ::
  "models \<Rightarrow> 'r get_pagination_values \<Rightarrow> session \<Rightarrow> 'r \<Rightarrow> string \<Rightarrow> (exc + response) \<times> 'r" where
  "HostHandler_get M get_pagination_values s self hostname =
     (case get_pagination_values self of
        (Inl e, self') \<Rightarrow> (Inl e, self')
      | (Inr (offset, limit, expand), self') \<Rightarrow>
          (case scalar (filter (\<lambda>h. host_hostname h = hostname) (host_rows s)) of
             Inl e \<Rightarrow> (Inl e, self')
           | Inr None \<Rightarrow> (Inl (NotFound (''No such Host '' @ hostname @ '' found'')), self')
           | Inr (Some host) \<Rightarrow>
               (let json = host_to_dict M ''/api/v1'' host;
                    json = dict_set ''limit'' (JInt (int limit)) json;
                    json = dict_set ''offset'' (JInt (int offset)) json;
                    (labors, quests) =
                      labors_loop M expand
                        (from_self_order_by labor_creation_time
                           (limit_offset limit offset (get_labors s host))) [] [];
                    json = dict_set ''labors'' (JArr labors) json;
                    json = dict_set ''quests'' (JArr quests) json;
                    last_event = first (host_get_latest_events s host);
                    events =
                      events_loop M expand
                        (from_self_order_by event_timestamp
                           (limit_offset limit offset (host_get_latest_events s host))) []
                in (case last_event of
                      None \<Rightarrow> (Inl (AttributeError ''timestamp''), self')
                    | Some last_event \<Rightarrow>
                        (let json = dict_set ''lastEvent'' (JStr (str_timestamp M (event_timestamp last_event))) json;
                             json = dict_set ''events'' (JArr events) json
                         in (Inr (Success json), self'))))))"

section \<open>Hosts: creation\<close>

text \<open>
  \<^verbatim>\<open>self.jbody\<close>: the request body parsed as a JSON object, here with the string members
  the handlers read; \<open>Inl msg\<close> is a body that does not parse, on which reading
  \<^verbatim>\<open>self.jbody\<close> raises \<^verbatim>\<open>ValueError(msg)\<close>.
\<close>

type_synonym jbody = "string + (string \<times> string) list"

text \<open>The identity the store gives a new row: one more than the largest in use.\<close>

definition next_id :: "int list \<Rightarrow> int" where
  "next_id ids = fold max ids 0 + 1"

text \<open>
  Modelled from the spec: \<^verbatim>\<open>Host.create(session, hostname)\<close> is defined in
  \<^verbatim>\<open>hermes/models.py\<close>, which is missing from the sources. By the spec a host is created
  with a non-empty, unique hostname and gets a numeric id: an empty hostname fails with
  the validation error, a hostname already stored violates the uniqueness constraint of
  the store (the integrity error the handler turns into a conflict), and a failed
  creation stores nothing. The message texts stand for those of the model layer and of
  the database driver.
\<close>

definition Host_create :: "session \<Rightarrow> string \<Rightarrow> exc + host \<times> session" where
  "Host_create s hostname =
     (if hostname = [] then Inl (ValidationError ''hostname is required'')
      else if hostname \<in> set (map host_hostname (host_rows s))
      then Inl (IntegrityError ''hostname is not unique'')
      else (let host = \<lparr>host_id = next_id (map host_id (host_rows s)), host_hostname = hostname\<rparr>
            in Inr (host, s\<lparr>host_rows := host_rows s @ [host]\<rparr>)))"

text \<open>
  \<^verbatim>\<open>HostsHandler.post\<close> (api.py, lines 47 to 68). \<^verbatim>\<open>self.session.commit()\<close> makes the
  session returned by the creation the stored one.
\<close>

definition HostsHandler_post :: "models \<Rightarrow> session \<Rightarrow> jbody \<Rightarrow> (exc + response) \<times> session" where
  "HostsHandler_post M s jbody =
     (case jbody of
        Inl msg \<Rightarrow> (Inl (BadRequest msg), s)
      | Inr body \<Rightarrow>
          (case map_of body ''hostname'' of
             None \<Rightarrow> (Inl (BadRequest (''Missing Required Argument: '' @ ''hostname'')), s)
           | Some hostname \<Rightarrow>
               (case Host_create s hostname of
                  Inl (IntegrityError msg) \<Rightarrow> (Inl (Conflict msg), s)
                | Inl (ValidationError msg) \<Rightarrow> (Inl (BadRequest msg), s)
                | Inl e \<Rightarrow> (Inl e, s)
                | Inr (host, s') \<Rightarrow>
                    (let json = host_to_dict M ''/api/v1'' host;
                         json = dict_set ''href'' (JStr (''/api/v1/hosts/'' @ host_hostname host)) json
                     in (Inr (Created (''/api/v1/hosts/'' @ host_hostname host) json), s')))))"

section \<open>Event types\<close>

text \<open>Python's \<^verbatim>\<open>"{}".format(n)\<close> for an integer: its decimal digits.\<close>

fun str_nat :: "nat \<Rightarrow> string" where
  "str_nat n =
     (if n < 10 then [''0123456789'' ! n]
      else str_nat (n div 10) @ [''0123456789'' ! (n mod 10)])"

declare str_nat.simps [simp del]

definition str_int :: "int \<Rightarrow> string" where
  "str_int i = (if i < 0 then CHR ''-'' # str_nat (nat (- i)) else str_nat (nat i))"

text \<open>The loop of \<^verbatim>\<open>EventTypeHandler.get\<close> over the associated fates (lines 452 to 461).\<close>

fun fates_loop :: "models \<Rightarrow> string set \<Rightarrow> fate list \<Rightarrow> json list \<Rightarrow> json list" where
  "fates_loop M expand [] fates_acc = fates_acc"
| "fates_loop M expand (fate # rest) fates_acc =
     fates_loop M expand rest
       (if ''fates'' \<in> expand
        then fates_acc @ [JObj (fate_to_dict M ''/api/v1'' fate)]
        else fates_acc @ [JObj [(''id'', JInt (fate_id fate)),
                                (''href'', JStr (fate_href M ''/api/v1'' fate))]])"

text \<open>\<^verbatim>\<open>EventTypeHandler.get\<close> (api.py, lines 426 to 464).\<close>

definition EventTypeHandler_get ::
  "models \<Rightarrow> 'r get_pagination_values \<Rightarrow> session \<Rightarrow> 'r \<Rightarrow> int \<Rightarrow> (exc + response) \<times> 'r" where
  "EventTypeHandler_get M get_pagination_values s self ident =
     (case get_pagination_values self of
        (Inl e, self') \<Rightarrow> (Inl e, self')
      | (Inr (offset, limit, expand), self') \<Rightarrow>
          (case scalar (filter (\<lambda>t. event_type_id t = ident) (event_type_rows s)) of
             Inl e \<Rightarrow> (Inl e, self')
           | Inr None \<Rightarrow> (Inl (NotFound (''No such EventType '' @ str_int ident @ '' found'')), self')
           | Inr (Some event_type) \<Rightarrow>
               (let json = event_type_to_dict M ''/api/v1'' event_type;
                    json = dict_set ''limit'' (JInt (int limit)) json;
                    json = dict_set ''offset'' (JInt (int offset)) json;
                    events =
                      events_loop M expand
                        (from_self_order_by event_timestamp
                           (limit_offset limit offset (event_type_get_latest_events s event_type))) [];
                    json = dict_set ''events'' (JArr events) json;
                    fates = fates_loop M expand (get_associated_fates s event_type) [];
                    json = dict_set ''fate'' (JArr fates) json
                in (Inr (Success json), self'))))"

text \<open>
  Modelled from the spec: \<^verbatim>\<open>EventType.update(description=...)\<close> is defined in
  \<^verbatim>\<open>hermes/models.py\<close>, which is missing from the sources. By the spec the update of an
  event type sets its description, the one attribute that is mutable after creation, and
  has no conflict path.
\<close>

definition EventType_update :: "session \<Rightarrow> event_type \<Rightarrow> string \<Rightarrow> exc + event_type \<times> session" where
  "EventType_update s event_type description =
     Inr (event_type\<lparr>event_type_description := description\<rparr>,
          s\<lparr>event_type_rows :=
              map (\<lambda>t. if event_type_id t = event_type_id event_type
                        then t\<lparr>event_type_description := description\<rparr> else t)
                  (event_type_rows s)\<rparr>)"

text \<open>\<^verbatim>\<open>EventTypeHandler.put\<close> (api.py, lines 500 to 520).\<close>

definition EventTypeHandler_put :: "models \<Rightarrow> session \<Rightarrow> jbody \<Rightarrow> int \<Rightarrow> (exc + response) \<times> session" where
  "EventTypeHandler_put M s jbody ident =
     (case scalar (filter (\<lambda>t. event_type_id t = ident) (event_type_rows s)) of
        Inl e \<Rightarrow> (Inl e, s)
      | Inr None \<Rightarrow> (Inl (NotFound (''No such EventType '' @ str_int ident @ '' found'')), s)
      | Inr (Some event_type) \<Rightarrow>
          (case jbody of
             Inl msg \<Rightarrow> (Inl (ValueError msg), s)
           | Inr body \<Rightarrow>
               (case map_of body ''description'' of
                  None \<Rightarrow> (Inl (BadRequest (''Missing Required Argument: '' @ ''description'')), s)
                | Some description \<Rightarrow>
                    (case EventType_update s event_type description of
                       Inl (IntegrityError msg) \<Rightarrow> (Inl (Conflict msg), s)
                     | Inl e \<Rightarrow> (Inl e, s)
                     | Inr (event_type', s') \<Rightarrow>
                         (Inr (Success [(''eventType'',
                                         JObj (event_type_to_dict M ''/api/v1'' event_type'))]), s')))))"

text \<open>
  \<^verbatim>\<open>EventTypeHandler.delete\<close> (api.py, lines 522 to 545): the body is the single call
  \<^verbatim>\<open>self.error({"message": "Not supported."})\<close>; the session is not touched.
\<close>

definition EventTypeHandler_delete :: "session \<Rightarrow> int \<Rightarrow> (exc + response) \<times> session" where
  "EventTypeHandler_delete s ident = (Inr (Error [(''message'', JStr ''Not supported.'')]), s)"

section \<open>The representation of a related entity\<close>

text \<open>
  The Representation Selector of the spec (section 4.2): for a relation name, the
  expand-set and an entity, the full representation when the name is in the expand-set,
  otherwise the reference holding the numeric id and the link of the entity, and nothing
  else. The entries below are what it gives for the four relations; the theorems compare
  the arrays the handlers build with them.
\<close>

definition representation :: "string \<Rightarrow> string set \<Rightarrow> dict \<Rightarrow> int \<Rightarrow> string \<Rightarrow> json" where
  "representation relation expand full ident href =
     (if relation \<in> expand then JObj full else JObj [(''id'', JInt ident), (''href'', JStr href)])"

definition labor_entry :: "models \<Rightarrow> string set \<Rightarrow> labor \<Rightarrow> json" where
  "labor_entry M expand l =
     representation ''labors'' expand (labor_to_dict M ''/api/v1'' l) (labor_id l) (labor_href M ''/api/v1'' l)"

definition quest_entry :: "models \<Rightarrow> string set \<Rightarrow> quest \<Rightarrow> json" where
  "quest_entry M expand q =
     representation ''quests'' expand (quest_to_dict M ''/api/v1'' q) (quest_id q) (quest_href M ''/api/v1'' q)"

definition event_entry :: "models \<Rightarrow> string set \<Rightarrow> event \<Rightarrow> json" where
  "event_entry M expand e =
     representation ''events'' expand (event_to_dict M ''/api/v1'' e) (event_id e) (event_href M ''/api/v1'' e)"

definition fate_entry :: "models \<Rightarrow> string set \<Rightarrow> fate \<Rightarrow> json" where
  "fate_entry M expand f =
     representation ''fates'' expand (fate_to_dict M ''/api/v1'' f) (fate_id f) (fate_href M ''/api/v1'' f)"

section \<open>A small installation, for concrete runs\<close>

definition example_models :: models where
  "example_models =
     \<lparr>host_to_dict = (\<lambda>b h. [(''id'', JInt (host_id h)), (''hostname'', JStr (host_hostname h))]),
      event_type_to_dict = (\<lambda>b t. [(''id'', JInt (event_type_id t)),
                                     (''category'', JStr (event_type_category t)),
                                     (''state'', JStr (event_type_state t)),
                                     (''description'', JStr (event_type_description t))]),
      labor_to_dict = (\<lambda>b l. [(''id'', JInt (labor_id l)), (''questId'', JInt (quest_id (labor_quest l)))]),
      labor_href = (\<lambda>b l. b @ ''/labors/'' @ str_int (labor_id l)),
      quest_to_dict = (\<lambda>b q. [(''id'', JInt (quest_id q)), (''open'', JStr ''yes'')]),
      quest_href = (\<lambda>b q. b @ ''/quests/'' @ str_int (quest_id q)),
      event_to_dict = (\<lambda>b e. [(''id'', JInt (event_id e)), (''hostId'', JInt (event_host_id e))]),
      event_href = (\<lambda>b e. b @ ''/events/'' @ str_int (event_id e)),
      fate_to_dict = (\<lambda>b f. [(''id'', JInt (fate_id f)), (''description'', JStr ''reboot'')]),
      fate_href = (\<lambda>b f. b @ ''/fates/'' @ str_int (fate_id f)),
      str_timestamp = str_int\<rparr>"

text \<open>
  Host \<open>h1\<close> has three events (timestamps 10, 30, 20) and two labors of one quest, the
  newer labor coming first in the labor query; host \<open>h2\<close> has no event; host \<open>h3\<close> has
  one event and two labors, the older labor coming first. Event type 1 has the three
  events of \<open>h1\<close> and two fates.
\<close>

definition example_session :: session where
  "example_session =
     \<lparr>host_rows = [\<lparr>host_id = 1, host_hostname = ''h1''\<rparr>, \<lparr>host_id = 2, host_hostname = ''h2''\<rparr>,
                   \<lparr>host_id = 3, host_hostname = ''h3''\<rparr>],
      event_type_rows =
        [\<lparr>event_type_id = 1, event_type_category = ''system-reboot'',
          event_type_state = ''required'', event_type_description = ''This system requires a reboot''\<rparr>,
         \<lparr>event_type_id = 2, event_type_category = ''system-reboot'',
          event_type_state = ''completed'', event_type_description = ''This system rebooted''\<rparr>],
      event_rows =
        [\<lparr>event_id = 1, event_host_id = 1, event_event_type_id = 1, event_timestamp = 10\<rparr>,
         \<lparr>event_id = 2, event_host_id = 1, event_event_type_id = 1, event_timestamp = 30\<rparr>,
         \<lparr>event_id = 3, event_host_id = 1, event_event_type_id = 1, event_timestamp = 20\<rparr>,
         \<lparr>event_id = 4, event_host_id = 3, event_event_type_id = 2, event_timestamp = 40\<rparr>],
      labor_rows =
        [\<lparr>labor_id = 2, labor_host_id = 1, labor_creation_time = 20, labor_quest = \<lparr>quest_id = 7\<rparr>\<rparr>,
         \<lparr>labor_id = 1, labor_host_id = 1, labor_creation_time = 10, labor_quest = \<lparr>quest_id = 7\<rparr>\<rparr>,
         \<lparr>labor_id = 3, labor_host_id = 3, labor_creation_time = 30, labor_quest = \<lparr>quest_id = 8\<rparr>\<rparr>,
         \<lparr>labor_id = 4, labor_host_id = 3, labor_creation_time = 40, labor_quest = \<lparr>quest_id = 8\<rparr>\<rparr>],
      fate_rows =
        [\<lparr>fate_id = 1, fate_event_type_ids = [1]\<rparr>,
         \<lparr>fate_id = 2, fate_event_type_ids = [1, 2]\<rparr>,
         \<lparr>fate_id = 3, fate_event_type_ids = [2]\<rparr>]\<rparr>"

definition empty_session :: session where
  "empty_session = \<lparr>host_rows = [], event_type_rows = [], event_rows = [], labor_rows = [], fate_rows = []\<rparr>"

text \<open>
  A \<^verbatim>\<open>get_pagination_values\<close> that returns the given triple and counts its calls in the
  handler's state.
\<close>

definition counting_pagination :: "pagination \<Rightarrow> nat get_pagination_values" where
  "counting_pagination p calls = (Inr p, Suc calls)"

section \<open>Dictionaries, the loops and the queries\<close>

lemma dict_get_set: "dict_get (dict_set k v d) k' = (if k' = k then Some v else dict_get d k')"
  by (simp add: dict_get_def dict_set_def update_conv')

lemma labors_loop_map:
  "labors_loop M expand ls la qa =
     (la @ map (labor_entry M expand) ls, qa @ map (\<lambda>l. quest_entry M expand (labor_quest l)) ls)"
  by (induction ls arbitrary: la qa) (simp_all add: labor_entry_def quest_entry_def representation_def)

lemma events_loop_map: "events_loop M expand es acc = acc @ map (event_entry M expand) es"
  by (induction es arbitrary: acc) (simp_all add: event_entry_def representation_def)

lemma fates_loop_map: "fates_loop M expand fs acc = acc @ map (fate_entry M expand) fs"
  by (induction fs arbitrary: acc) (simp_all add: fate_entry_def representation_def)

lemma first_latest:
  assumes "first (rev (sort_key f xs)) = Some e"
  shows "e \<in> set xs \<and> f e = Max (f ` set xs)"
proof -
  define ys where "ys = sort_key f xs"
  from assms have ne: "ys \<noteq> []" and e: "e = last ys"
    by (auto simp: first_def hd_rev ys_def split: list.splits)
  have srt: "sorted (map f ys)" and st: "set ys = set xs"
    by (simp_all add: ys_def)
  from ne have ys: "ys = butlast ys @ [e]"
    by (simp add: e)
  have "sorted (map f (butlast ys @ [e]))"
    using srt ys by simp
  then have le: "\<forall>y \<in> set (butlast ys). f y \<le> f e"
    by (simp add: sorted_append)
  have mem: "e \<in> set xs"
    using ne e st last_in_set by metis
  have "\<forall>y \<in> set ys. f y \<le> f e"
  proof
    fix y assume "y \<in> set ys"
    then have "y \<in> set (butlast ys @ [e])" using ys by simp
    then show "f y \<le> f e" using le by auto
  qed
  then have "Max (f ` set xs) = f e"
    using mem st by (intro Max_eqI) auto
  then show ?thesis using mem by simp
qed

lemma first_None: "first xs = None \<longleftrightarrow> xs = []"
  by (simp add: first_def split: list.splits)

lemma latest_empty: "rev (sort_key f xs) = [] \<longleftrightarrow> xs = []"
  by (metis rev_is_Nil_conv set_empty set_sort)

lemma HostHandler_get_found:
  assumes "get_pagination_values self = (Inr (offset, limit, expand), self')"
    and "scalar (filter (\<lambda>h. host_hostname h = hostname) (host_rows s)) = Inr (Some host)"
  shows "HostHandler_get M get_pagination_values s self hostname =
     (case first (host_get_latest_events s host) of
        None \<Rightarrow> (Inl (AttributeError ''timestamp''), self')
      | Some last_event \<Rightarrow>
          (Inr (Success
             (dict_set ''events''
                (JArr (map (event_entry M expand)
                   (from_self_order_by event_timestamp
                      (limit_offset limit offset (host_get_latest_events s host)))))
             (dict_set ''lastEvent'' (JStr (str_timestamp M (event_timestamp last_event)))
             (dict_set ''quests''
                (JArr (map (\<lambda>l. quest_entry M expand (labor_quest l))
                   (from_self_order_by labor_creation_time
                      (limit_offset limit offset (get_labors s host)))))
             (dict_set ''labors''
                (JArr (map (labor_entry M expand)
                   (from_self_order_by labor_creation_time
                      (limit_offset limit offset (get_labors s host)))))
             (dict_set ''offset'' (JInt (int offset))
             (dict_set ''limit'' (JInt (int limit))
             (host_to_dict M ''/api/v1'' host)))))))), self'))"
  using assms
  by (simp add: HostHandler_get_def labors_loop_map events_loop_map Let_def split: option.splits)

lemma host_latest_empty: "host_get_latest_events s host = [] \<longleftrightarrow> host_events s host = []"
  by (metis host_get_latest_events_def latest_empty)

lemma host_first_latest_cases:
  "(host_events s host = [] \<and> first (host_get_latest_events s host) = None) \<or>
   (\<exists>e. first (host_get_latest_events s host) = Some e \<and> e \<in> set (host_events s host) \<and>
        event_timestamp e = Max (event_timestamp ` set (host_events s host)))"
proof (cases "first (host_get_latest_events s host)")
  case None
  then show ?thesis by (simp add: first_None host_latest_empty)
next
  case (Some e)
  then show ?thesis
    using first_latest [of event_timestamp "host_events s host" e]
    by (simp add: host_get_latest_events_def)
qed

lemma EventTypeHandler_get_found:
  assumes "get_pagination_values self = (Inr (offset, limit, expand), self')"
    and "scalar (filter (\<lambda>t. event_type_id t = ident) (event_type_rows s)) = Inr (Some event_type)"
  shows "EventTypeHandler_get M get_pagination_values s self ident =
     (Inr (Success
        (dict_set ''fate'' (JArr (map (fate_entry M expand) (get_associated_fates s event_type)))
        (dict_set ''events''
           (JArr (map (event_entry M expand)
              (from_self_order_by event_timestamp
                 (limit_offset limit offset (event_type_get_latest_events s event_type)))))
        (dict_set ''offset'' (JInt (int offset))
        (dict_set ''limit'' (JInt (int limit))
        (event_type_to_dict M ''/api/v1'' event_type)))))), self')"
  using assms
  by (simp add: EventTypeHandler_get_def fates_loop_map events_loop_map Let_def)

lemma window_of_ordered:
  assumes "sorted (map key rows)"
  shows "from_self_order_by key (limit_offset limit offset rows) =
         limit_offset limit offset (from_self_order_by key rows)"
proof -
  have "sorted (map key (take limit (drop offset rows)))"
    using assms by (simp add: sorted_wrt_drop sorted_wrt_take sorted_map)
  then show ?thesis
    using assms by (simp add: from_self_order_by_def limit_offset_def sort_key_id_if_sorted)
qed

lemma scalar_Some: "scalar rows = Inr (Some r) \<longleftrightarrow> rows = [r]"
  by (auto simp add: scalar_def split: list.splits)

lemma counting_pagination_call: "counting_pagination p calls = (Inr p, Suc calls)"
  by (simp add: counting_pagination_def)

lemma example_host_h1:
  "scalar (filter (\<lambda>h. host_hostname h = ''h1'') (host_rows example_session)) =
     Inr (Some \<lparr>host_id = 1, host_hostname = ''h1''\<rparr>)"
  by (simp add: example_session_def scalar_def)

lemma example_host_h2:
  "scalar (filter (\<lambda>h. host_hostname h = ''h2'') (host_rows example_session)) =
     Inr (Some \<lparr>host_id = 2, host_hostname = ''h2''\<rparr>)"
  by (simp add: example_session_def scalar_def)

lemma example_host_h3:
  "scalar (filter (\<lambda>h. host_hostname h = ''h3'') (host_rows example_session)) =
     Inr (Some \<lparr>host_id = 3, host_hostname = ''h3''\<rparr>)"
  by (simp add: example_session_def scalar_def)

lemma example_event_type_1:
  "scalar (filter (\<lambda>t. event_type_id t = 1) (event_type_rows example_session)) =
     Inr (Some \<lparr>event_type_id = 1, event_type_category = ''system-reboot'',
                event_type_state = ''required'',
                event_type_description = ''This system requires a reboot''\<rparr>)"
  by (simp add: example_session_def scalar_def)

lemmas example_defs = example_session_def example_models_def counting_pagination_def
  scalar_def first_def limit_offset_def from_self_order_by_def
  dict_set_def dict_get_def str_int_def str_nat.simps

lemmas host_example_defs = HostHandler_get_def get_labors_def host_events_def
  host_get_latest_events_def

lemmas event_type_example_defs = EventTypeHandler_get_def event_type_events_def
  event_type_get_latest_events_def get_associated_fates_def

section \<open>The event-type delete handler answers through the error responder\<close>

text \<open>
  C1. For every id and every session, \<^verbatim>\<open>DELETE /eventtypes/{id}\<close> leaves the session as
  it was and carries the message "Not supported."; the handler hands that message to
  \<^verbatim>\<open>self.error\<close>, so its answer is not one made by \<^verbatim>\<open>self.success\<close>.
\<close>

theorem EventTypeHandler_delete_error_responder:
  "snd (EventTypeHandler_delete s ident) = s \<and>
   fst (EventTypeHandler_delete s ident) = Inr (Error [(''message'', JStr ''Not supported.'')]) \<and>
   fst (EventTypeHandler_delete s ident) \<noteq> Inr (Success [(''message'', JStr ''Not supported.'')])"
  by (simp add: EventTypeHandler_delete_def)

section \<open>The latest event of a host\<close>

text \<open>
  C2. For an existing host, whatever offset and limit are, the \<^verbatim>\<open>lastEvent\<close> field of the
  composite document is the text of the maximum timestamp among all events of the host,
  also when the window of \<^verbatim>\<open>events\<close> leaves that event out. (A host with no event has no
  maximum and no document: the request raises, see C10.) The order of the latest-events
  query comes from the spec, the model layer not being among the sources.
\<close>

theorem HostHandler_get_lastEvent:
  assumes "get_pagination_values self = (Inr (offset, limit, expand), self')"
    and "scalar (filter (\<lambda>h. host_hostname h = hostname) (host_rows s)) = Inr (Some host)"
  shows "(host_events s host = [] \<and>
            fst (HostHandler_get M get_pagination_values s self hostname) = Inl (AttributeError ''timestamp'')) \<or>
         (\<exists>doc. fst (HostHandler_get M get_pagination_values s self hostname) = Inr (Success doc) \<and>
               dict_get doc ''lastEvent'' =
                 Some (JStr (str_timestamp M (Max (event_timestamp ` set (host_events s host))))))"
  using host_first_latest_cases [of s host]
  by (auto simp add: HostHandler_get_found [where get_pagination_values = get_pagination_values and self = self, OF assms] dict_get_set)

text \<open>
  Host \<open>h1\<close> with offset 1 and limit 1: the window of events holds the event of timestamp 20 only, and \<^verbatim>\<open>lastEvent\<close> is 30.
\<close>

theorem HostHandler_get_lastEvent_witness:
  "\<exists>doc. fst (HostHandler_get example_models (counting_pagination (1, 1, {})) example_session 0 ''h1'') =
            Inr (Success doc) \<and>
         dict_get doc ''lastEvent'' = Some (JStr ''30'') \<and>
         dict_get doc ''events'' =
           Some (JArr [JObj [(''id'', JInt 3), (''href'', JStr ''/api/v1/events/3'')]])"
  using HostHandler_get_lastEvent [where get_pagination_values = "counting_pagination (1, 1, {})"
      and self = 0 and M = example_models, OF counting_pagination_call example_host_h1]
  by (simp add: host_example_defs example_defs)

section \<open>Labors and quests go in pairs\<close>

text \<open>
  C3. For an existing host and any offset and limit, the \<^verbatim>\<open>labors\<close> and \<^verbatim>\<open>quests\<close> arrays
  of the composite document have the same length, that of the window of labors, and at
  every index the quest entry is the entry of the quest of the labor at that index: one
  quest entry for each labor, in the same order, with no deduplication. (A host with no
  event has no document, see C10.)
\<close>

theorem HostHandler_get_labors_quests_paired:
  assumes "get_pagination_values self = (Inr (offset, limit, expand), self')"
    and "scalar (filter (\<lambda>h. host_hostname h = hostname) (host_rows s)) = Inr (Some host)"
    and "window = from_self_order_by labor_creation_time (limit_offset limit offset (get_labors s host))"
  shows "(host_events s host = [] \<and>
            fst (HostHandler_get M get_pagination_values s self hostname) = Inl (AttributeError ''timestamp'')) \<or>
         (\<exists>doc labors quests.
            fst (HostHandler_get M get_pagination_values s self hostname) = Inr (Success doc) \<and>
            dict_get doc ''labors'' = Some (JArr labors) \<and>
            dict_get doc ''quests'' = Some (JArr quests) \<and>
            length labors = length quests \<and> length labors = length window \<and>
            (\<forall>i < length window.
               labors ! i = labor_entry M expand (window ! i) \<and>
               quests ! i = quest_entry M expand (labor_quest (window ! i))))"
  using host_first_latest_cases [of s host]
  by (auto simp add: HostHandler_get_found [where get_pagination_values = get_pagination_values and self = self, OF assms(1,2)]
      dict_get_set assms(3))

text \<open>
  The two labors of host \<open>h1\<close> belong to quest 7: the quest appears twice, expanded.
\<close>

theorem HostHandler_get_labors_quests_paired_witness:
  "\<exists>doc. fst (HostHandler_get example_models (counting_pagination (0, 10, {''quests''})) example_session 0 ''h1'') =
            Inr (Success doc) \<and>
         dict_get doc ''labors'' =
           Some (JArr [JObj [(''id'', JInt 1), (''href'', JStr ''/api/v1/labors/1'')],
                       JObj [(''id'', JInt 2), (''href'', JStr ''/api/v1/labors/2'')]]) \<and>
         dict_get doc ''quests'' =
           Some (JArr [JObj [(''id'', JInt 7), (''open'', JStr ''yes'')],
                       JObj [(''id'', JInt 7), (''open'', JStr ''yes'')]])"
  using HostHandler_get_labors_quests_paired [where get_pagination_values = "counting_pagination (0, 10, {''quests''})"
      and self = 0 and M = example_models, OF counting_pagination_call example_host_h1 refl]
  by (simp add: host_example_defs example_defs)

section \<open>One pagination window for a host document\<close>

text \<open>
  C4. A request for a host document calls \<^verbatim>\<open>get_pagination_values\<close> exactly once: the
  handler ends in the state that one call leaves. The offset and limit of that call are
  the ones the document reports, and the same pair windows the labor query (for both
  \<^verbatim>\<open>labors\<close> and \<^verbatim>\<open>quests\<close>) and the latest-events query (for \<^verbatim>\<open>events\<close>).
\<close>

theorem HostHandler_get_single_window:
  assumes "get_pagination_values self = (Inr (offset, limit, expand), self')"
    and "scalar (filter (\<lambda>h. host_hostname h = hostname) (host_rows s)) = Inr (Some host)"
  shows "snd (HostHandler_get M get_pagination_values s self hostname) = self' \<and>
         ((host_events s host = [] \<and>
            fst (HostHandler_get M get_pagination_values s self hostname) = Inl (AttributeError ''timestamp'')) \<or>
          (\<exists>doc.
            fst (HostHandler_get M get_pagination_values s self hostname) = Inr (Success doc) \<and>
            dict_get doc ''offset'' = Some (JInt (int offset)) \<and>
            dict_get doc ''limit'' = Some (JInt (int limit)) \<and>
            dict_get doc ''labors'' =
              Some (JArr (map (labor_entry M expand)
                (from_self_order_by labor_creation_time (limit_offset limit offset (get_labors s host))))) \<and>
            dict_get doc ''quests'' =
              Some (JArr (map (\<lambda>l. quest_entry M expand (labor_quest l))
                (from_self_order_by labor_creation_time (limit_offset limit offset (get_labors s host))))) \<and>
            dict_get doc ''events'' =
              Some (JArr (map (event_entry M expand)
                (from_self_order_by event_timestamp
                   (limit_offset limit offset (host_get_latest_events s host)))))))"
  using host_first_latest_cases [of s host]
  by (auto simp add: HostHandler_get_found [where get_pagination_values = get_pagination_values and self = self, OF assms]
      dict_get_set)

text \<open>
  One call is counted, and offset 1 with limit 1 cuts the labors, the quests and the events alike.
\<close>

theorem HostHandler_get_single_window_witness:
  "snd (HostHandler_get example_models (counting_pagination (1, 1, {})) example_session 0 ''h1'') = 1 \<and>
   (\<exists>doc. fst (HostHandler_get example_models (counting_pagination (1, 1, {})) example_session 0 ''h1'') =
            Inr (Success doc) \<and>
          dict_get doc ''offset'' = Some (JInt 1) \<and>
          dict_get doc ''limit'' = Some (JInt 1) \<and>
          dict_get doc ''labors'' =
            Some (JArr [JObj [(''id'', JInt 1), (''href'', JStr ''/api/v1/labors/1'')]]) \<and>
          dict_get doc ''quests'' =
            Some (JArr [JObj [(''id'', JInt 7), (''href'', JStr ''/api/v1/quests/7'')]]) \<and>
          dict_get doc ''events'' =
            Some (JArr [JObj [(''id'', JInt 3), (''href'', JStr ''/api/v1/events/3'')]]))"
  using HostHandler_get_single_window [where get_pagination_values = "counting_pagination (1, 1, {})"
      and self = 0 and M = example_models, OF counting_pagination_call example_host_h1]
  by (simp add: host_example_defs example_defs)

section \<open>The window of labors\<close>

text \<open>
  C5 as the spec words it: the \<^verbatim>\<open>labors\<close> array would be the rows \<open>offset\<close> to
  \<open>offset + limit\<close> of the labors ordered by creation time. This fails: the handler cuts the window
  out of the labor query first (\<^verbatim>\<open>.limit(limit).offset(offset)\<close>) and orders what is left
  (\<^verbatim>\<open>.from_self().order_by(Labor.creation_time)\<close>). Host \<open>h1\<close>, whose labor query yields
  labor 2 (created at 20) before labor 1 (created at 10), with offset 0 and limit 1: the
  document holds labor 2, the slice of the ordered labors holds labor 1.
\<close>

theorem labors_window_of_ordered_counterexample:
  "fst (HostHandler_get example_models (counting_pagination (0, 1, {})) example_session 0 ''h1'') =
     Inr (Success
       [(''id'', JInt 1), (''hostname'', JStr ''h1''), (''limit'', JInt 1), (''offset'', JInt 0),
        (''labors'', JArr [JObj [(''id'', JInt 2), (''href'', JStr ''/api/v1/labors/2'')]]),
        (''quests'', JArr [JObj [(''id'', JInt 7), (''href'', JStr ''/api/v1/quests/7'')]]),
        (''lastEvent'', JStr ''30''),
        (''events'', JArr [JObj [(''id'', JInt 2), (''href'', JStr ''/api/v1/events/2'')]])]) \<and>
   map (labor_entry example_models {})
     (limit_offset 1 0
        (from_self_order_by labor_creation_time
           (get_labors example_session \<lparr>host_id = 1, host_hostname = ''h1''\<rparr>))) =
     [JObj [(''id'', JInt 1), (''href'', JStr ''/api/v1/labors/1'')]]"
  by (simp add: host_example_defs example_defs labor_entry_def representation_def)

text \<open>
  C5, amended. For an existing host and any offset and limit, the \<^verbatim>\<open>labors\<close> array is
  made of the rows \<open>offset\<close> to \<open>offset + limit\<close> of the host's labor query, in the order
  the query yields them, put in ascending order of creation time afterwards: the window
  is cut first and ordered second. It is the slice of the collection ordered by creation
  time when the query already yields the labors in ascending order of creation time.
\<close>

theorem HostHandler_get_labors_window:
  assumes "get_pagination_values self = (Inr (offset, limit, expand), self')"
    and "scalar (filter (\<lambda>h. host_hostname h = hostname) (host_rows s)) = Inr (Some host)"
  shows "(host_events s host = [] \<and>
            fst (HostHandler_get M get_pagination_values s self hostname) = Inl (AttributeError ''timestamp'')) \<or>
         (\<exists>doc.
            fst (HostHandler_get M get_pagination_values s self hostname) = Inr (Success doc) \<and>
            dict_get doc ''labors'' =
              Some (JArr (map (labor_entry M expand)
                (from_self_order_by labor_creation_time (limit_offset limit offset (get_labors s host))))) \<and>
            (sorted (map labor_creation_time (get_labors s host)) \<longrightarrow>
             dict_get doc ''labors'' =
              Some (JArr (map (labor_entry M expand)
                (limit_offset limit offset (from_self_order_by labor_creation_time (get_labors s host)))))))"
  using host_first_latest_cases [of s host]
  by (auto simp add: HostHandler_get_found [where get_pagination_values = get_pagination_values and self = self, OF assms]
      dict_get_set window_of_ordered)

text \<open>
  With offset 0 and limit 1 the labor rendered for host \<open>h1\<close> is labor 2, the first row of
  its labor query. The labor query of host \<open>h3\<close> is in ascending order of creation time,
  and there the window is the slice of the ordered labors.
\<close>

theorem HostHandler_get_labors_window_witness:
  "(\<exists>doc. fst (HostHandler_get example_models (counting_pagination (0, 1, {})) example_session 0 ''h1'') =
            Inr (Success doc) \<and>
          dict_get doc ''labors'' =
            Some (JArr [JObj [(''id'', JInt 2), (''href'', JStr ''/api/v1/labors/2'')]])) \<and>
   sorted (map labor_creation_time (get_labors example_session \<lparr>host_id = 3, host_hostname = ''h3''\<rparr>)) \<and>
   (\<exists>doc. fst (HostHandler_get example_models (counting_pagination (1, 1, {})) example_session 0 ''h3'') =
            Inr (Success doc) \<and>
          dict_get doc ''labors'' =
            Some (JArr (map (labor_entry example_models {})
              (limit_offset 1 1 (from_self_order_by labor_creation_time
                 (get_labors example_session \<lparr>host_id = 3, host_hostname = ''h3''\<rparr>))))) \<and>
          dict_get doc ''labors'' =
            Some (JArr [JObj [(''id'', JInt 4), (''href'', JStr ''/api/v1/labors/4'')]]))"
  using HostHandler_get_labors_window [where get_pagination_values = "counting_pagination (0, 1, {})"
      and self = 0 and M = example_models, OF counting_pagination_call example_host_h1]
    HostHandler_get_labors_window [where get_pagination_values = "counting_pagination (1, 1, {})"
      and self = 0 and M = example_models, OF counting_pagination_call example_host_h3]
  by (simp add: host_example_defs example_defs labor_entry_def representation_def)


section \<open>Full representation or reference\<close>

text \<open>
  C6. In the documents of both handlers, every relation array (\<^verbatim>\<open>labors\<close>, \<^verbatim>\<open>quests\<close> and
  \<^verbatim>\<open>events\<close> of a host, \<^verbatim>\<open>events\<close> and \<^verbatim>\<open>fate\<close> of an event type) has exactly one entry
  for each entity of its window. When the relation name is in the expand-set the entry is
  the full representation of the entity; otherwise it is the reference made of the
  entity's id and href and nothing else. The names are \<^verbatim>\<open>labors\<close>, \<^verbatim>\<open>quests\<close>,
  \<^verbatim>\<open>events\<close> and \<^verbatim>\<open>fates\<close>.
\<close>

theorem related_entries_full_or_reference:
  assumes "get_pagination_values self = (Inr (offset, limit, expand), self')"
  shows "(scalar (filter (\<lambda>h. host_hostname h = hostname) (host_rows s)) = Inr (Some host) \<longrightarrow>
          (host_events s host = [] \<and>
             fst (HostHandler_get M get_pagination_values s self hostname) = Inl (AttributeError ''timestamp'')) \<or>
          (\<exists>doc.
             fst (HostHandler_get M get_pagination_values s self hostname) = Inr (Success doc) \<and>
             dict_get doc ''labors'' =
               Some (JArr (map (\<lambda>l. if ''labors'' \<in> expand then JObj (labor_to_dict M ''/api/v1'' l)
                                      else JObj [(''id'', JInt (labor_id l)),
                                                 (''href'', JStr (labor_href M ''/api/v1'' l))])
                 (from_self_order_by labor_creation_time (limit_offset limit offset (get_labors s host))))) \<and>
             dict_get doc ''quests'' =
               Some (JArr (map (\<lambda>l. if ''quests'' \<in> expand then JObj (quest_to_dict M ''/api/v1'' (labor_quest l))
                                      else JObj [(''id'', JInt (quest_id (labor_quest l))),
                                                 (''href'', JStr (quest_href M ''/api/v1'' (labor_quest l)))])
                 (from_self_order_by labor_creation_time (limit_offset limit offset (get_labors s host))))) \<and>
             dict_get doc ''events'' =
               Some (JArr (map (\<lambda>e. if ''events'' \<in> expand then JObj (event_to_dict M ''/api/v1'' e)
                                      else JObj [(''id'', JInt (event_id e)),
                                                 (''href'', JStr (event_href M ''/api/v1'' e))])
                 (from_self_order_by event_timestamp
                    (limit_offset limit offset (host_get_latest_events s host))))))) \<and>
         (scalar (filter (\<lambda>t. event_type_id t = ident) (event_type_rows s)) = Inr (Some event_type) \<longrightarrow>
          (\<exists>doc.
             fst (EventTypeHandler_get M get_pagination_values s self ident) = Inr (Success doc) \<and>
             dict_get doc ''events'' =
               Some (JArr (map (\<lambda>e. if ''events'' \<in> expand then JObj (event_to_dict M ''/api/v1'' e)
                                      else JObj [(''id'', JInt (event_id e)),
                                                 (''href'', JStr (event_href M ''/api/v1'' e))])
                 (from_self_order_by event_timestamp
                    (limit_offset limit offset (event_type_get_latest_events s event_type))))) \<and>
             dict_get doc ''fate'' =
               Some (JArr (map (\<lambda>f. if ''fates'' \<in> expand then JObj (fate_to_dict M ''/api/v1'' f)
                                      else JObj [(''id'', JInt (fate_id f)),
                                                 (''href'', JStr (fate_href M ''/api/v1'' f))])
                 (get_associated_fates s event_type)))))"
proof (intro conjI impI)
  assume h: "scalar (filter (\<lambda>h. host_hostname h = hostname) (host_rows s)) = Inr (Some host)"
  have l: "labor_entry M expand = (\<lambda>l. if ''labors'' \<in> expand then JObj (labor_to_dict M ''/api/v1'' l)
                                      else JObj [(''id'', JInt (labor_id l)),
                                                 (''href'', JStr (labor_href M ''/api/v1'' l))])"
    by (rule ext) (simp add: labor_entry_def representation_def)
  have q: "(\<lambda>l. quest_entry M expand (labor_quest l)) =
           (\<lambda>l. if ''quests'' \<in> expand then JObj (quest_to_dict M ''/api/v1'' (labor_quest l))
                                      else JObj [(''id'', JInt (quest_id (labor_quest l))),
                                                 (''href'', JStr (quest_href M ''/api/v1'' (labor_quest l)))])"
    by (rule ext) (simp add: quest_entry_def representation_def)
  have e: "event_entry M expand = (\<lambda>e. if ''events'' \<in> expand then JObj (event_to_dict M ''/api/v1'' e)
                                      else JObj [(''id'', JInt (event_id e)),
                                                 (''href'', JStr (event_href M ''/api/v1'' e))])"
    by (rule ext) (simp add: event_entry_def representation_def)
  show "(host_events s host = [] \<and>
             fst (HostHandler_get M get_pagination_values s self hostname) = Inl (AttributeError ''timestamp'')) \<or>
          (\<exists>doc.
             fst (HostHandler_get M get_pagination_values s self hostname) = Inr (Success doc) \<and>
             dict_get doc ''labors'' =
               Some (JArr (map (\<lambda>l. if ''labors'' \<in> expand then JObj (labor_to_dict M ''/api/v1'' l)
                                      else JObj [(''id'', JInt (labor_id l)),
                                                 (''href'', JStr (labor_href M ''/api/v1'' l))])
                 (from_self_order_by labor_creation_time (limit_offset limit offset (get_labors s host))))) \<and>
             dict_get doc ''quests'' =
               Some (JArr (map (\<lambda>l. if ''quests'' \<in> expand then JObj (quest_to_dict M ''/api/v1'' (labor_quest l))
                                      else JObj [(''id'', JInt (quest_id (labor_quest l))),
                                                 (''href'', JStr (quest_href M ''/api/v1'' (labor_quest l)))])
                 (from_self_order_by labor_creation_time (limit_offset limit offset (get_labors s host))))) \<and>
             dict_get doc ''events'' =
               Some (JArr (map (\<lambda>e. if ''events'' \<in> expand then JObj (event_to_dict M ''/api/v1'' e)
                                      else JObj [(''id'', JInt (event_id e)),
                                                 (''href'', JStr (event_href M ''/api/v1'' e))])
                 (from_self_order_by event_timestamp
                    (limit_offset limit offset (host_get_latest_events s host))))))"
    using host_first_latest_cases [of s host]
    by (auto simp add: HostHandler_get_found [where get_pagination_values = get_pagination_values and self = self, OF assms h]
        dict_get_set l [symmetric] q [symmetric] e [symmetric])
next
  assume t: "scalar (filter (\<lambda>t. event_type_id t = ident) (event_type_rows s)) = Inr (Some event_type)"
  have e: "event_entry M expand = (\<lambda>e. if ''events'' \<in> expand then JObj (event_to_dict M ''/api/v1'' e)
                                      else JObj [(''id'', JInt (event_id e)),
                                                 (''href'', JStr (event_href M ''/api/v1'' e))])"
    by (rule ext) (simp add: event_entry_def representation_def)
  have f: "fate_entry M expand = (\<lambda>f. if ''fates'' \<in> expand then JObj (fate_to_dict M ''/api/v1'' f)
                                      else JObj [(''id'', JInt (fate_id f)),
                                                 (''href'', JStr (fate_href M ''/api/v1'' f))])"
    by (rule ext) (simp add: fate_entry_def representation_def)
  show "\<exists>doc.
             fst (EventTypeHandler_get M get_pagination_values s self ident) = Inr (Success doc) \<and>
             dict_get doc ''events'' =
               Some (JArr (map (\<lambda>e. if ''events'' \<in> expand then JObj (event_to_dict M ''/api/v1'' e)
                                      else JObj [(''id'', JInt (event_id e)),
                                                 (''href'', JStr (event_href M ''/api/v1'' e))])
                 (from_self_order_by event_timestamp
                    (limit_offset limit offset (event_type_get_latest_events s event_type))))) \<and>
             dict_get doc ''fate'' =
               Some (JArr (map (\<lambda>f. if ''fates'' \<in> expand then JObj (fate_to_dict M ''/api/v1'' f)
                                      else JObj [(''id'', JInt (fate_id f)),
                                                 (''href'', JStr (fate_href M ''/api/v1'' f))])
                 (get_associated_fates s event_type)))"
    by (simp add: EventTypeHandler_get_found [where get_pagination_values = get_pagination_values and self = self, OF assms t]
        dict_get_set e [symmetric] f [symmetric])
qed

text \<open>
  With \<^verbatim>\<open>quests\<close> the one name in the expand-set, quests are expanded and labors, events and fates are references.
\<close>

theorem related_entries_full_or_reference_witness:
  "(\<exists>doc. fst (HostHandler_get example_models (counting_pagination (0, 10, {''quests''})) example_session 0 ''h1'') =
            Inr (Success doc) \<and>
          dict_get doc ''labors'' =
            Some (JArr [JObj [(''id'', JInt 1), (''href'', JStr ''/api/v1/labors/1'')],
                        JObj [(''id'', JInt 2), (''href'', JStr ''/api/v1/labors/2'')]]) \<and>
          dict_get doc ''quests'' =
            Some (JArr [JObj [(''id'', JInt 7), (''open'', JStr ''yes'')],
                        JObj [(''id'', JInt 7), (''open'', JStr ''yes'')]])) \<and>
   (\<exists>doc. fst (EventTypeHandler_get example_models (counting_pagination (0, 10, {''quests''})) example_session 0 1) =
            Inr (Success doc) \<and>
          dict_get doc ''events'' =
            Some (JArr [JObj [(''id'', JInt 1), (''href'', JStr ''/api/v1/events/1'')],
                        JObj [(''id'', JInt 3), (''href'', JStr ''/api/v1/events/3'')],
                        JObj [(''id'', JInt 2), (''href'', JStr ''/api/v1/events/2'')]]) \<and>
          dict_get doc ''fate'' =
            Some (JArr [JObj [(''id'', JInt 1), (''href'', JStr ''/api/v1/fates/1'')],
                        JObj [(''id'', JInt 2), (''href'', JStr ''/api/v1/fates/2'')]]))"
  using related_entries_full_or_reference [where get_pagination_values = "counting_pagination (0, 10, {''quests''})"
      and self = 0 and M = example_models and s = example_session and hostname = "''h1''" and ident = 1,
      OF counting_pagination_call]
    example_host_h1 example_event_type_1
  by (simp add: host_example_defs event_type_example_defs example_defs)

section \<open>Updating an event type\<close>

text \<open>
  C7. \<^verbatim>\<open>PUT /eventtypes/{id}\<close> on an existing event type. With a description in the
  body the request succeeds and the stored event type differs from the old one in its
  description only: ids, categories and states of all event types are as before, the
  other event types and the other tables are untouched. With no description in the body
  the request fails with \<^verbatim>\<open>BadRequest\<close> "Missing Required Argument: description" (the
  validation error of the spec, which the API reports as a bad request) and the session
  is unchanged. The effect of the update itself comes from the spec, the model layer not
  being among the sources.
\<close>

theorem EventTypeHandler_put_description_only:
  assumes "scalar (filter (\<lambda>t. event_type_id t = ident) (event_type_rows s)) = Inr (Some event_type)"
  shows "(map_of body ''description'' = Some d \<longrightarrow>
           (\<exists>data s'. EventTypeHandler_put M s (Inr body) ident = (Inr (Success data), s') \<and>
              scalar (filter (\<lambda>t. event_type_id t = ident) (event_type_rows s')) =
                Inr (Some (event_type\<lparr>event_type_description := d\<rparr>)) \<and>
              map event_type_id (event_type_rows s') = map event_type_id (event_type_rows s) \<and>
              map event_type_category (event_type_rows s') = map event_type_category (event_type_rows s) \<and>
              map event_type_state (event_type_rows s') = map event_type_state (event_type_rows s) \<and>
              filter (\<lambda>t. event_type_id t \<noteq> ident) (event_type_rows s') =
                filter (\<lambda>t. event_type_id t \<noteq> ident) (event_type_rows s) \<and>
              s'\<lparr>event_type_rows := event_type_rows s\<rparr> = s)) \<and>
         (map_of body ''description'' = None \<longrightarrow>
           EventTypeHandler_put M s (Inr body) ident =
             (Inl (BadRequest ''Missing Required Argument: description''), s))"
proof (intro conjI impI)
  from assms have rows: "filter (\<lambda>t. event_type_id t = ident) (event_type_rows s) = [event_type]"
    by (simp add: scalar_Some)
  then have "event_type \<in> set (filter (\<lambda>t. event_type_id t = ident) (event_type_rows s))"
    by simp
  then have ident: "event_type_id event_type = ident"
    by simp
  {
    assume d: "map_of body ''description'' = Some d"
    define upd where "upd = (\<lambda>t::event_type. if event_type_id t = ident then t\<lparr>event_type_description := d\<rparr> else t)"
    define s' where "s' = s\<lparr>event_type_rows := map upd (event_type_rows s)\<rparr>"
    have put: "EventTypeHandler_put M s (Inr body) ident =
      (Inr (Success [(''eventType'',
          JObj (event_type_to_dict M ''/api/v1'' (event_type\<lparr>event_type_description := d\<rparr>)))]), s')"
      using assms d by (simp add: EventTypeHandler_put_def EventType_update_def ident s'_def upd_def)
    have "filter (\<lambda>t. event_type_id t = ident) (map upd (event_type_rows s)) =
          map upd (filter (\<lambda>t. event_type_id t = ident) (event_type_rows s))"
      by (simp add: filter_map comp_def upd_def)
    then have one: "scalar (filter (\<lambda>t. event_type_id t = ident) (event_type_rows s')) =
                Inr (Some (event_type\<lparr>event_type_description := d\<rparr>))"
      by (simp add: rows s'_def scalar_def upd_def ident)
    have ids: "map event_type_id (event_type_rows s') = map event_type_id (event_type_rows s)"
      and cats: "map event_type_category (event_type_rows s') = map event_type_category (event_type_rows s)"
      and sts: "map event_type_state (event_type_rows s') = map event_type_state (event_type_rows s)"
      by (simp_all add: s'_def upd_def)
    have "filter (\<lambda>t. event_type_id t \<noteq> ident) (map upd rows) =
          filter (\<lambda>t. event_type_id t \<noteq> ident) rows" for rows
      by (induction rows) (auto simp add: upd_def)
    then have others: "filter (\<lambda>t. event_type_id t \<noteq> ident) (event_type_rows s') =
                filter (\<lambda>t. event_type_id t \<noteq> ident) (event_type_rows s)"
      by (simp add: s'_def)
    have rest: "s'\<lparr>event_type_rows := event_type_rows s\<rparr> = s"
      by (simp add: s'_def)
    show "\<exists>data s'. EventTypeHandler_put M s (Inr body) ident = (Inr (Success data), s') \<and>
              scalar (filter (\<lambda>t. event_type_id t = ident) (event_type_rows s')) =
                Inr (Some (event_type\<lparr>event_type_description := d\<rparr>)) \<and>
              map event_type_id (event_type_rows s') = map event_type_id (event_type_rows s) \<and>
              map event_type_category (event_type_rows s') = map event_type_category (event_type_rows s) \<and>
              map event_type_state (event_type_rows s') = map event_type_state (event_type_rows s) \<and>
              filter (\<lambda>t. event_type_id t \<noteq> ident) (event_type_rows s') =
                filter (\<lambda>t. event_type_id t \<noteq> ident) (event_type_rows s) \<and>
              s'\<lparr>event_type_rows := event_type_rows s\<rparr> = s"
      using put one ids cats sts others rest by blast
  }
  {
    assume "map_of body ''description'' = None"
    then show "EventTypeHandler_put M s (Inr body) ident =
             (Inl (BadRequest ''Missing Required Argument: description''), s)"
      using assms by (simp add: EventTypeHandler_put_def)
  }
qed

text \<open>
  Event type 1 gets the description \<open>new\<close>; a body with a category and no description is refused.
\<close>

theorem EventTypeHandler_put_description_only_witness:
  "(\<exists>data s'. EventTypeHandler_put example_models example_session (Inr [(''description'', ''new'')]) 1 =
        (Inr (Success data), s') \<and>
      map event_type_description (event_type_rows s') = [''new'', ''This system rebooted''] \<and>
      map event_type_category (event_type_rows s') = [''system-reboot'', ''system-reboot''] \<and>
      map event_type_state (event_type_rows s') = [''required'', ''completed'']) \<and>
   EventTypeHandler_put example_models example_session (Inr [(''category'', ''new'')]) 1 =
     (Inl (BadRequest ''Missing Required Argument: description''), example_session)"
  using EventTypeHandler_put_description_only [where M = example_models and body = "[(''description'', ''new'')]"
      and d = "''new''", OF example_event_type_1]
    EventTypeHandler_put_description_only [where M = example_models and body = "[(''category'', ''new'')]",
      OF example_event_type_1]
  by (simp add: EventTypeHandler_put_def EventType_update_def example_defs)

section \<open>Creating a host and fetching it\<close>

text \<open>
  C8. On a store with no host, \<^verbatim>\<open>POST /hosts\<close> with hostname \<open>h1\<close> creates the host with
  id 1. A second creation with the same hostname fails with \<^verbatim>\<open>Conflict\<close> and leaves the
  store as it was. Fetching the new host with \<^verbatim>\<open>GET /hosts/h1\<close> does not return it: the
  host has no event yet, \<^verbatim>\<open>last_event\<close> is \<^verbatim>\<open>None\<close>, and line 193 raises
  \<^verbatim>\<open>AttributeError\<close>. The creation itself comes from the spec, the model layer not being
  among the sources.
\<close>

theorem create_then_get_raises:
  "HostsHandler_post example_models empty_session (Inr [(''hostname'', ''h1'')]) =
     (Inr (Created ''/api/v1/hosts/h1''
            [(''id'', JInt 1), (''hostname'', JStr ''h1''), (''href'', JStr ''/api/v1/hosts/h1'')]),
      empty_session\<lparr>host_rows := [\<lparr>host_id = 1, host_hostname = ''h1''\<rparr>]\<rparr>) \<and>
   fst (HostHandler_get example_models (counting_pagination (0, 10, {}))
          (empty_session\<lparr>host_rows := [\<lparr>host_id = 1, host_hostname = ''h1''\<rparr>]\<rparr>) 0 ''h1'') =
     Inl (AttributeError ''timestamp'') \<and>
   HostsHandler_post example_models
       (empty_session\<lparr>host_rows := [\<lparr>host_id = 1, host_hostname = ''h1''\<rparr>]\<rparr>)
       (Inr [(''hostname'', ''h1'')]) =
     (Inl (Conflict ''hostname is not unique''),
      empty_session\<lparr>host_rows := [\<lparr>host_id = 1, host_hostname = ''h1''\<rparr>]\<rparr>)"
  by (simp add: HostsHandler_post_def Host_create_def next_id_def empty_session_def
      host_example_defs example_defs Let_def)

section \<open>The fates of an event type\<close>

text \<open>
  C9. For an existing event type and any offset and limit, the composite document holds
  under the singular key \<^verbatim>\<open>fate\<close> an array with one entry for every fate associated with
  the event type, in the order of the fates query: offset and limit do not enter. The
  handler sets no key \<^verbatim>\<open>fates\<close>.
\<close>

theorem EventTypeHandler_get_fate_unpaginated:
  assumes "get_pagination_values self = (Inr (offset, limit, expand), self')"
    and "scalar (filter (\<lambda>t. event_type_id t = ident) (event_type_rows s)) = Inr (Some event_type)"
  shows "\<exists>doc. fst (EventTypeHandler_get M get_pagination_values s self ident) = Inr (Success doc) \<and>
           dict_get doc ''fate'' =
             Some (JArr (map (fate_entry M expand) (get_associated_fates s event_type))) \<and>
           dict_get doc ''fates'' = dict_get (event_type_to_dict M ''/api/v1'' event_type) ''fates''"
  by (simp add: EventTypeHandler_get_found [where get_pagination_values = get_pagination_values and self = self, OF assms]
      dict_get_set)

text \<open>
  Offset 1 and limit 1 cut the events of event type 1 down to one; both its fates are rendered.
\<close>

theorem EventTypeHandler_get_fate_unpaginated_witness:
  "\<exists>doc. fst (EventTypeHandler_get example_models (counting_pagination (1, 1, {''fates''})) example_session 0 1) =
            Inr (Success doc) \<and>
         dict_get doc ''fate'' =
           Some (JArr [JObj [(''id'', JInt 1), (''description'', JStr ''reboot'')],
                       JObj [(''id'', JInt 2), (''description'', JStr ''reboot'')]]) \<and>
         dict_get doc ''fates'' = None \<and>
         dict_get doc ''events'' =
           Some (JArr [JObj [(''id'', JInt 3), (''href'', JStr ''/api/v1/events/3'')]])"
  using EventTypeHandler_get_fate_unpaginated [where get_pagination_values = "counting_pagination (1, 1, {''fates''})"
      and self = 0 and M = example_models, OF counting_pagination_call example_event_type_1]
  by (simp add: event_type_example_defs example_defs)

section \<open>Host documents exist for hosts with an event\<close>

text \<open>
  C10. \<^verbatim>\<open>HostHandler.get\<close> reads the timestamp of the first row of the latest-events query
  with no test for absence. For an existing host (and pagination values that resolve), the
  request ends in \<^verbatim>\<open>AttributeError\<close> when the host has no recorded event, and when the
  host has at least one event the read is safe: the first row exists, the request
  succeeds, and \<^verbatim>\<open>lastEvent\<close> is the text of that row's timestamp.
\<close>

theorem HostHandler_get_needs_event:
  assumes "get_pagination_values self = (Inr (offset, limit, expand), self')"
    and "scalar (filter (\<lambda>h. host_hostname h = hostname) (host_rows s)) = Inr (Some host)"
  shows "(host_events s host = [] \<longrightarrow>
            fst (HostHandler_get M get_pagination_values s self hostname) = Inl (AttributeError ''timestamp'')) \<and>
         (host_events s host \<noteq> [] \<longrightarrow>
            (\<exists>doc e. first (host_get_latest_events s host) = Some e \<and>
               fst (HostHandler_get M get_pagination_values s self hostname) = Inr (Success doc) \<and>
               dict_get doc ''lastEvent'' = Some (JStr (str_timestamp M (event_timestamp e)))))"
  using host_first_latest_cases [of s host]
  by (auto simp add: HostHandler_get_found [where get_pagination_values = get_pagination_values and self = self, OF assms] dict_get_set)

text \<open>
  Host \<open>h2\<close> has no event and its request raises; host \<open>h1\<close> has three and its request succeeds.
\<close>

theorem HostHandler_get_needs_event_witness:
  "fst (HostHandler_get example_models (counting_pagination (0, 10, {})) example_session 0 ''h2'') =
     Inl (AttributeError ''timestamp'') \<and>
   (\<exists>doc. fst (HostHandler_get example_models (counting_pagination (0, 10, {})) example_session 0 ''h1'') =
            Inr (Success doc) \<and>
          dict_get doc ''lastEvent'' = Some (JStr ''30''))"
  using HostHandler_get_needs_event [where get_pagination_values = "counting_pagination (0, 10, {})"
      and self = 0 and M = example_models, OF counting_pagination_call example_host_h1]
    HostHandler_get_needs_event [where get_pagination_values = "counting_pagination (0, 10, {})"
      and self = 0 and M = example_models, OF counting_pagination_call example_host_h2]
  by (simp add: host_example_defs example_defs)

end
